theory Spec2Isabelle
  imports Main "HOL-Library.Word"
begin

section \<open>Button.h: the data model\<close>

text \<open>
  The two enumerations of Button.h, in the order of their declaration. The
  specification calls the four states Released, DebouncingPress, Held and
  DebouncingRelease, and the two types Short-Press mode and Long-Press mode.
\<close>

datatype ButtonState = BUTTON_UP | DEBOUNCE_PRESS | BUTTON_DOWN | DEBOUNCE_RELEASE

datatype ButtonType = SHORT_PRESS_TYPE | LONG_PRESS_TYPE

text \<open>
  The bit field \<^verbatim>\<open>flags\<close>: four one-bit members, each only ever assigned 0 or 1.
\<close>

record ButtonFlags =
  buttonDownEvent :: bool
  shortPress :: bool
  longPress :: bool
  buttonUpEvent :: bool

text \<open>
  \<^verbatim>\<open>struct Button\<close>. The five \<^verbatim>\<open>uint16_t\<close> members are 16-bit words, so that
  \<^verbatim>\<open>++\<close> wraps as it does in C. The specification's names for the three periods are
  pressDebounceTicks, releaseDebounceTicks and longPressTicks.
\<close>

record Button =
  pressDebouncePeriod :: "16 word"
  releaseDebouncePeriod :: "16 word"
  longPressPeriod :: "16 word"
  longPressCounter :: "16 word"
  debounceCounter :: "16 word"
  buttonState :: ButtonState
  buttonType :: ButtonType
  flags :: ButtonFlags

section \<open>Button.c: initialisation\<close>

text \<open>
  \<^verbatim>\<open>Button_InitWithLongPressMs\<close> writes through \<^verbatim>\<open>self\<close>: the model takes the
  instance as the caller hands it over and returns it updated. The three periods are
  assigned only when \<^verbatim>\<open>tickMs != 0\<close>; neither counter and no flag is assigned.
  The operands of \<^verbatim>\<open>/\<close> are \<^verbatim>\<open>uint16_t\<close> values, promoted to \<^verbatim>\<open>int\<close>: the
  quotient of two non-negative values, which fits 16 bits again.
\<close>

definition Button_InitWithLongPressMs ::
  "Button \<Rightarrow> 16 word \<Rightarrow> 16 word \<Rightarrow> 16 word \<Rightarrow> 16 word \<Rightarrow> Button" where
  "Button_InitWithLongPressMs self pressDebounceMs releaseDebounceMs longPressMs tickMs =
     (let s1 = (if tickMs \<noteq> 0
                then self\<lparr>pressDebouncePeriod := pressDebounceMs div tickMs,
                          releaseDebouncePeriod := releaseDebounceMs div tickMs,
                          longPressPeriod := longPressMs div tickMs\<rparr>
                else self);
          s2 = (if longPressPeriod s1 = 0
                then s1\<lparr>buttonType := SHORT_PRESS_TYPE\<rparr>
                else s1\<lparr>buttonType := LONG_PRESS_TYPE\<rparr>)
      in s2\<lparr>buttonState := BUTTON_UP\<rparr>)"

definition Button_InitMs :: "Button \<Rightarrow> 16 word \<Rightarrow> 16 word \<Rightarrow> 16 word \<Rightarrow> Button" where
  "Button_InitMs self pressDebounceMs releaseDebounceMs tickMs =
     Button_InitWithLongPressMs self pressDebounceMs releaseDebounceMs 0 tickMs"

section \<open>Button.c: the tick\<close>

text \<open>
  One definition for each \<^verbatim>\<open>case\<close> of the \<^verbatim>\<open>switch\<close> in \<^verbatim>\<open>Button_Tick\<close>; the
  statements of a branch are chained by \<open>let\<close> in the order of the source.
\<close>

definition Button_Tick_UP :: "Button \<Rightarrow> bool \<Rightarrow> Button" where
  "Button_Tick_UP self isPressed =
     (if isPressed then
        (if pressDebouncePeriod self = 0 then
           (let s1 = (if buttonType self = SHORT_PRESS_TYPE
                      then self\<lparr>flags := (flags self)\<lparr>shortPress := True\<rparr>\<rparr>
                      else self);
                s2 = s1\<lparr>flags := (flags s1)\<lparr>buttonDownEvent := True\<rparr>\<rparr>;
                s3 = s2\<lparr>buttonState := BUTTON_DOWN\<rparr>
            in s3\<lparr>longPressCounter := 0\<rparr>)
         else
           (let s1 = self\<lparr>buttonState := DEBOUNCE_PRESS\<rparr>
            in s1\<lparr>debounceCounter := 0\<rparr>))
      else self)"

definition Button_Tick_DEBOUNCE_PRESS :: "Button \<Rightarrow> bool \<Rightarrow> Button" where
  "Button_Tick_DEBOUNCE_PRESS self isPressed =
     (let s0 = self\<lparr>debounceCounter := debounceCounter self + 1\<rparr>
      in if debounceCounter s0 = pressDebouncePeriod s0 then
           (if isPressed then
              (let s1 = (if buttonType s0 = SHORT_PRESS_TYPE
                         then s0\<lparr>flags := (flags s0)\<lparr>shortPress := True\<rparr>\<rparr>
                         else s0);
                   s2 = s1\<lparr>flags := (flags s1)\<lparr>buttonDownEvent := True\<rparr>\<rparr>;
                   s3 = s2\<lparr>buttonState := BUTTON_DOWN\<rparr>
               in s3\<lparr>longPressCounter := 0\<rparr>)
            else s0\<lparr>buttonState := BUTTON_UP\<rparr>)
         else s0)"

definition Button_Tick_DOWN :: "Button \<Rightarrow> bool \<Rightarrow> Button" where
  "Button_Tick_DOWN self isPressed =
     (let s0 = (if isPressed \<and> buttonType self = LONG_PRESS_TYPE then
                  (if longPressCounter self < longPressPeriod self then
                     (let s1 = self\<lparr>longPressCounter := longPressCounter self + 1\<rparr>
                      in if longPressCounter s1 = longPressPeriod s1
                         then s1\<lparr>flags := (flags s1)\<lparr>longPress := True\<rparr>\<rparr>
                         else s1)
                   else self)
                else self)
      in if \<not> isPressed then
           (if releaseDebouncePeriod s0 = 0 then
              (let s1 = (if buttonType s0 = LONG_PRESS_TYPE then
                           (if longPressCounter s0 < longPressPeriod s0
                            then s0\<lparr>flags := (flags s0)\<lparr>shortPress := True\<rparr>\<rparr>
                            else s0)
                         else s0);
                   s2 = s1\<lparr>flags := (flags s1)\<lparr>buttonUpEvent := True\<rparr>\<rparr>
               in s2\<lparr>buttonState := BUTTON_UP\<rparr>)
            else
              (let s1 = s0\<lparr>buttonState := DEBOUNCE_RELEASE\<rparr>
               in s1\<lparr>debounceCounter := 0\<rparr>))
         else s0)"

definition Button_Tick_DEBOUNCE_RELEASE :: "Button \<Rightarrow> bool \<Rightarrow> Button" where
  "Button_Tick_DEBOUNCE_RELEASE self isPressed =
     (let s0 = self\<lparr>debounceCounter := debounceCounter self + 1\<rparr>
      in if debounceCounter s0 = releaseDebouncePeriod s0 then
           (if \<not> isPressed then
              (let s1 = (if buttonType s0 = LONG_PRESS_TYPE then
                           (if longPressCounter s0 < longPressPeriod s0
                            then s0\<lparr>flags := (flags s0)\<lparr>shortPress := True\<rparr>\<rparr>
                            else s0)
                         else s0);
                   s2 = s1\<lparr>flags := (flags s1)\<lparr>buttonUpEvent := True\<rparr>\<rparr>
               in s2\<lparr>buttonState := BUTTON_UP\<rparr>)
            else s0\<lparr>buttonState := BUTTON_UP\<rparr>)
         else s0)"

definition Button_Tick :: "Button \<Rightarrow> bool \<Rightarrow> Button" where
  "Button_Tick self isPressed =
     (case buttonState self of
        BUTTON_UP \<Rightarrow> Button_Tick_UP self isPressed
      | DEBOUNCE_PRESS \<Rightarrow> Button_Tick_DEBOUNCE_PRESS self isPressed
      | BUTTON_DOWN \<Rightarrow> Button_Tick_DOWN self isPressed
      | DEBOUNCE_RELEASE \<Rightarrow> Button_Tick_DEBOUNCE_RELEASE self isPressed)"

section \<open>Button.c: the flag accessors\<close>

definition Button_GetShortPress :: "Button \<Rightarrow> bool" where
  "Button_GetShortPress self = (if shortPress (flags self) then True else False)"

definition Button_GetLongPress :: "Button \<Rightarrow> bool" where
  "Button_GetLongPress self = (if longPress (flags self) then True else False)"

definition Button_ClearShortPressFlag :: "Button \<Rightarrow> Button" where
  "Button_ClearShortPressFlag self = self\<lparr>flags := (flags self)\<lparr>shortPress := False\<rparr>\<rparr>"

definition Button_ClearLongPressFlag :: "Button \<Rightarrow> Button" where
  "Button_ClearLongPressFlag self = self\<lparr>flags := (flags self)\<lparr>longPress := False\<rparr>\<rparr>"

definition Button_GetButtonDownEvent :: "Button \<Rightarrow> bool" where
  "Button_GetButtonDownEvent self = (if buttonDownEvent (flags self) then True else False)"

definition Button_GetButtonUpEvent :: "Button \<Rightarrow> bool" where
  "Button_GetButtonUpEvent self = (if buttonUpEvent (flags self) then True else False)"

definition Button_ClearButtonDownFlag :: "Button \<Rightarrow> Button" where
  "Button_ClearButtonDownFlag self = self\<lparr>flags := (flags self)\<lparr>buttonDownEvent := False\<rparr>\<rparr>"

definition Button_ClearButtonUpFlag :: "Button \<Rightarrow> Button" where
  "Button_ClearButtonUpFlag self = self\<lparr>flags := (flags self)\<lparr>buttonUpEvent := False\<rparr>\<rparr>"

section \<open>The caller's loop\<close>

text \<open>
  The caller samples the input once per tick and calls \<^verbatim>\<open>Button_Tick\<close> with it:
  \<open>run_ticks\<close> feeds a list of samples, first sample first.
\<close>

fun run_ticks :: "Button \<Rightarrow> bool list \<Rightarrow> Button" where
  "run_ticks self [] = self"
| "run_ticks self (b # bs) = run_ticks (Button_Tick self b) bs"

definition noFlags :: ButtonFlags where
  "noFlags = \<lparr>buttonDownEvent = False, shortPress = False, longPress = False,
              buttonUpEvent = False\<rparr>"

text \<open>A zero-filled instance, as a \<^verbatim>\<open>static Button\<close> is before initialisation.\<close>

definition zeroButton :: Button where
  "zeroButton = \<lparr>pressDebouncePeriod = 0, releaseDebouncePeriod = 0, longPressPeriod = 0,
                 longPressCounter = 0, debounceCounter = 0, buttonState = BUTTON_UP,
                 buttonType = SHORT_PRESS_TYPE, flags = noFlags\<rparr>"

text \<open>
  A tick raises an event when it executes the assignment of 1 to the event's flag. The
  tick never reads a flag, so this is what a caller sees who clears the flag before
  the tick and queries it afterwards.
\<close>

definition raisesDown :: "Button \<Rightarrow> bool \<Rightarrow> bool" where
  "raisesDown self isPressed =
     Button_GetButtonDownEvent (Button_Tick (Button_ClearButtonDownFlag self) isPressed)"

definition raisesUp :: "Button \<Rightarrow> bool \<Rightarrow> bool" where
  "raisesUp self isPressed =
     Button_GetButtonUpEvent (Button_Tick (Button_ClearButtonUpFlag self) isPressed)"

definition raisesShort :: "Button \<Rightarrow> bool \<Rightarrow> bool" where
  "raisesShort self isPressed =
     Button_GetShortPress (Button_Tick (Button_ClearShortPressFlag self) isPressed)"

definition raisesLong :: "Button \<Rightarrow> bool \<Rightarrow> bool" where
  "raisesLong self isPressed =
     Button_GetLongPress (Button_Tick (Button_ClearLongPressFlag self) isPressed)"

text \<open>
  Everything a caller can do to an instance after initialisation: advance it by one
  tick, or clear one of the four flags. The four query accessors return a value and
  write nothing.
\<close>

datatype ButtonCall =
  Tick bool
| ClearShortPressFlag
| ClearLongPressFlag
| ClearButtonDownFlag
| ClearButtonUpFlag

fun call :: "Button \<Rightarrow> ButtonCall \<Rightarrow> Button" where
  "call self (Tick isPressed) = Button_Tick self isPressed"
| "call self ClearShortPressFlag = Button_ClearShortPressFlag self"
| "call self ClearLongPressFlag = Button_ClearLongPressFlag self"
| "call self ClearButtonDownFlag = Button_ClearButtonDownFlag self"
| "call self ClearButtonUpFlag = Button_ClearButtonUpFlag self"

fun run_calls :: "Button \<Rightarrow> ButtonCall list \<Rightarrow> Button" where
  "run_calls self [] = self"
| "run_calls self (c # cs) = run_calls (call self c) cs"

text \<open>
  The bounds on the two counters that every tick keeps: the debounce counter is below
  the period of the debounce state it counts in, and the long-press counter is at most
  the long-press period wherever it is read, in \<open>BUTTON_DOWN\<close> and \<open>DEBOUNCE_RELEASE\<close>.
\<close>

definition counters_ok :: "Button \<Rightarrow> bool" where
  "counters_ok s \<longleftrightarrow>
     (buttonState s = DEBOUNCE_PRESS \<longrightarrow> debounceCounter s < pressDebouncePeriod s)
   \<and> (buttonState s = DEBOUNCE_RELEASE \<longrightarrow> debounceCounter s < releaseDebouncePeriod s)
   \<and> (buttonState s = BUTTON_DOWN \<or> buttonState s = DEBOUNCE_RELEASE
        \<longrightarrow> longPressCounter s \<le> longPressPeriod s)"

section \<open>Unfolding and single-step lemmas\<close>

lemmas tick_defs = Button_Tick_def Button_Tick_UP_def Button_Tick_DEBOUNCE_PRESS_def
  Button_Tick_DOWN_def Button_Tick_DEBOUNCE_RELEASE_def

lemmas init_defs = Button_InitWithLongPressMs_def Button_InitMs_def zeroButton_def noFlags_def

lemmas accessor_defs = Button_GetButtonDownEvent_def Button_GetButtonUpEvent_def
  Button_GetShortPress_def Button_GetLongPress_def Button_ClearButtonDownFlag_def
  Button_ClearButtonUpFlag_def Button_ClearShortPressFlag_def Button_ClearLongPressFlag_def

lemmas raises_defs = raisesDown_def raisesUp_def raisesShort_def raisesLong_def

lemma init_periods:
  assumes "tickMs \<noteq> 0"
  shows "pressDebouncePeriod (Button_InitWithLongPressMs self p r l tickMs) = p div tickMs"
    and "releaseDebouncePeriod (Button_InitWithLongPressMs self p r l tickMs) = r div tickMs"
    and "longPressPeriod (Button_InitWithLongPressMs self p r l tickMs) = l div tickMs"
  using assms by (simp_all add: Button_InitWithLongPressMs_def Let_def)

lemma init_type:
  "buttonType (Button_InitWithLongPressMs self p r l t) = SHORT_PRESS_TYPE
     \<longleftrightarrow> longPressPeriod (Button_InitWithLongPressMs self p r l t) = 0"
  by (simp add: Button_InitWithLongPressMs_def Let_def)

lemma init_state: "buttonState (Button_InitWithLongPressMs self p r l t) = BUTTON_UP"
  by (simp add: Button_InitWithLongPressMs_def Let_def)

lemma run_ticks_append: "run_ticks s (xs @ ys) = run_ticks (run_ticks s xs) ys"
  by (induction xs arbitrary: s) simp_all

lemma tick_keeps_flags:
  "(buttonDownEvent (flags s) \<longrightarrow> buttonDownEvent (flags (Button_Tick s b)))
   \<and> (buttonUpEvent (flags s) \<longrightarrow> buttonUpEvent (flags (Button_Tick s b)))
   \<and> (shortPress (flags s) \<longrightarrow> shortPress (flags (Button_Tick s b)))
   \<and> (longPress (flags s) \<longrightarrow> longPress (flags (Button_Tick s b)))"
  by (cases "buttonState s") (simp_all add: tick_defs Let_def)

section \<open>Initialisation\<close>

text \<open>
  Claim C8. For every initialisation with a tick interval other than zero, each of the
  three periods is the quotient of its millisecond argument by the tick interval,
  rounded down: the equation is stated on the natural numbers the 16-bit values stand
  for. \<^verbatim>\<open>Button_InitMs\<close> passes 0 for the long-press duration.
\<close>

theorem C8_periods_are_truncated_quotients:
  assumes "tickMs \<noteq> 0"
  shows "unat (pressDebouncePeriod (Button_InitWithLongPressMs self p r l tickMs))
           = unat p div unat tickMs
       \<and> unat (releaseDebouncePeriod (Button_InitWithLongPressMs self p r l tickMs))
           = unat r div unat tickMs
       \<and> unat (longPressPeriod (Button_InitWithLongPressMs self p r l tickMs))
           = unat l div unat tickMs
       \<and> unat (pressDebouncePeriod (Button_InitMs self p r tickMs)) = unat p div unat tickMs
       \<and> unat (releaseDebouncePeriod (Button_InitMs self p r tickMs)) = unat r div unat tickMs
       \<and> unat (longPressPeriod (Button_InitMs self p r tickMs)) = 0"
  by (simp only: Button_InitMs_def init_periods [OF assms] unat_div) simp

theorem C8_periods_witness:
  "(10 :: 16 word) \<noteq> 0
   \<and> pressDebouncePeriod (Button_InitWithLongPressMs zeroButton 25 47 1000 10) = 2
   \<and> releaseDebouncePeriod (Button_InitWithLongPressMs zeroButton 25 47 1000 10) = 4
   \<and> longPressPeriod (Button_InitWithLongPressMs zeroButton 25 47 1000 10) = 100"
  using C8_periods_are_truncated_quotients [of 10 zeroButton 25 47 1000]
  by (simp add: word_unat_eq_iff)

text \<open>
  Claim C9. Whenever an initialisation leaves the long-press period at zero, the
  instance is of the short-press type, whichever of the two functions was called; a
  requested long-press duration shorter than one tick is such a case.
\<close>

theorem C9_zero_long_press_period_is_short_press_type:
  "(longPressPeriod (Button_InitWithLongPressMs self p r l t) = 0 \<longrightarrow>
      buttonType (Button_InitWithLongPressMs self p r l t) = SHORT_PRESS_TYPE)
   \<and> (longPressPeriod (Button_InitMs self p r t) = 0 \<longrightarrow>
      buttonType (Button_InitMs self p r t) = SHORT_PRESS_TYPE)
   \<and> (t \<noteq> 0 \<and> unat l < unat t \<longrightarrow>
      longPressPeriod (Button_InitWithLongPressMs self p r l t) = 0 \<and>
      buttonType (Button_InitWithLongPressMs self p r l t) = SHORT_PRESS_TYPE)"
proof -
  have trunc: "longPressPeriod (Button_InitWithLongPressMs self p r l t) = 0"
    if "t \<noteq> 0" "unat l < unat t"
  proof -
    have "unat (l div t) = 0" using that by (simp add: unat_div)
    then show ?thesis by (simp add: init_periods [OF that(1)] unat_eq_0)
  qed
  show ?thesis using trunc by (simp add: Button_InitMs_def init_type)
qed

theorem C9_zero_long_press_period_witness:
  "longPressPeriod (Button_InitWithLongPressMs zeroButton 20 20 5 10) = 0
   \<and> buttonType (Button_InitWithLongPressMs zeroButton 20 20 5 10) = SHORT_PRESS_TYPE
   \<and> longPressPeriod (Button_InitMs zeroButton 20 20 10) = 0
   \<and> buttonType (Button_InitMs zeroButton 20 20 10) = SHORT_PRESS_TYPE
   \<and> (10 :: 16 word) \<noteq> 0 \<and> unat (5 :: 16 word) < unat (10 :: 16 word)"
proof -
  have a: "longPressPeriod (Button_InitWithLongPressMs zeroButton 20 20 5 10) = 0"
    and b: "longPressPeriod (Button_InitMs zeroButton 20 20 10) = 0"
    by (simp_all add: Button_InitMs_def init_periods)
  from C9_zero_long_press_period_is_short_press_type [of zeroButton 20 20 5 10] a b
  show ?thesis by simp
qed

section \<open>Release from the held state\<close>

text \<open>
  Claim C4. A long-press instance in \<open>BUTTON_DOWN\<close> with a release debounce period of
  zero, ticked with the sample deasserted: the tick raises \<open>buttonUpEvent\<close>, moves to
  \<open>BUTTON_UP\<close>, and raises \<open>shortPress\<close> exactly when the long-press counter is still
  below the long-press period; the \<open>longPress\<close> flag is left as it was.
\<close>

theorem C4_release_without_debounce:
  assumes "buttonType s = LONG_PRESS_TYPE"
    and "buttonState s = BUTTON_DOWN"
    and "releaseDebouncePeriod s = 0"
  shows "buttonUpEvent (flags (Button_Tick s False))
       \<and> raisesUp s False
       \<and> buttonState (Button_Tick s False) = BUTTON_UP
       \<and> (raisesShort s False \<longleftrightarrow> longPressCounter s < longPressPeriod s)
       \<and> (shortPress (flags (Button_Tick s False))
            \<longleftrightarrow> shortPress (flags s) \<or> longPressCounter s < longPressPeriod s)
       \<and> longPress (flags (Button_Tick s False)) = longPress (flags s)
       \<and> \<not> raisesLong s False"
  using assms by (simp add: tick_defs Let_def raises_defs accessor_defs)

theorem C4_release_without_debounce_witness:
  "buttonType (run_ticks (Button_InitWithLongPressMs zeroButton 0 0 3 1) [True, True])
     = LONG_PRESS_TYPE
   \<and> buttonState (run_ticks (Button_InitWithLongPressMs zeroButton 0 0 3 1) [True, True])
     = BUTTON_DOWN
   \<and> releaseDebouncePeriod (run_ticks (Button_InitWithLongPressMs zeroButton 0 0 3 1) [True, True])
     = 0
   \<and> longPressCounter (run_ticks (Button_InitWithLongPressMs zeroButton 0 0 3 1) [True, True])
     < longPressPeriod (run_ticks (Button_InitWithLongPressMs zeroButton 0 0 3 1) [True, True])
   \<and> raisesShort (run_ticks (Button_InitWithLongPressMs zeroButton 0 0 3 1) [True, True]) False
   \<and> raisesUp (run_ticks (Button_InitWithLongPressMs zeroButton 0 0 3 1) [True, True]) False
   \<and> buttonState (Button_Tick
        (run_ticks (Button_InitWithLongPressMs zeroButton 0 0 3 1) [True, True]) False)
     = BUTTON_UP"
proof -
  let ?s = "run_ticks (Button_InitWithLongPressMs zeroButton 0 0 3 1) [True, True]"
  have h: "buttonType ?s = LONG_PRESS_TYPE" "buttonState ?s = BUTTON_DOWN"
    "releaseDebouncePeriod ?s = 0"
    and c: "longPressCounter ?s < longPressPeriod ?s"
    by (simp_all add: tick_defs init_defs Let_def)
  from C4_release_without_debounce [OF h] h c show ?thesis by simp
qed

section \<open>The long-press scenario\<close>

text \<open>
  Claim C3. A long-press instance in \<open>BUTTON_UP\<close> with both debounce periods zero, a
  long-press period of 3 and no flag set is fed asserted, asserted, asserted, asserted,
  deasserted. The first tick enters \<open>BUTTON_DOWN\<close>; the \<open>longPress\<close> flag is still
  clear after the second and the third tick and is set by the fourth, the third
  asserted tick after the one that entered \<open>BUTTON_DOWN\<close>, where the long-press counter
  reaches 3; \<open>shortPress\<close> stays clear throughout; the deasserted tick raises
  \<open>buttonUpEvent\<close>.
\<close>

theorem C3_long_press_scenario:
  assumes "buttonType s = LONG_PRESS_TYPE"
    and "buttonState s = BUTTON_UP"
    and "pressDebouncePeriod s = 0"
    and "releaseDebouncePeriod s = 0"
    and "longPressPeriod s = 3"
    and "flags s = noFlags"
  shows "flags (run_ticks s [True]) = noFlags\<lparr>buttonDownEvent := True\<rparr>
       \<and> buttonState (run_ticks s [True]) = BUTTON_DOWN
       \<and> longPressCounter (run_ticks s [True]) = 0
       \<and> flags (run_ticks s [True, True]) = noFlags\<lparr>buttonDownEvent := True\<rparr>
       \<and> longPressCounter (run_ticks s [True, True]) = 1
       \<and> flags (run_ticks s [True, True, True]) = noFlags\<lparr>buttonDownEvent := True\<rparr>
       \<and> longPressCounter (run_ticks s [True, True, True]) = 2
       \<and> flags (run_ticks s [True, True, True, True])
            = noFlags\<lparr>buttonDownEvent := True, longPress := True\<rparr>
       \<and> longPressCounter (run_ticks s [True, True, True, True]) = 3
       \<and> buttonState (run_ticks s [True, True, True, True]) = BUTTON_DOWN
       \<and> flags (run_ticks s [True, True, True, True, False])
            = noFlags\<lparr>buttonDownEvent := True, longPress := True, buttonUpEvent := True\<rparr>
       \<and> buttonState (run_ticks s [True, True, True, True, False]) = BUTTON_UP"
  using assms by (simp add: tick_defs Let_def noFlags_def)

theorem C3_long_press_scenario_witness:
  "buttonType (Button_InitWithLongPressMs zeroButton 0 0 3 1) = LONG_PRESS_TYPE
   \<and> buttonState (Button_InitWithLongPressMs zeroButton 0 0 3 1) = BUTTON_UP
   \<and> pressDebouncePeriod (Button_InitWithLongPressMs zeroButton 0 0 3 1) = 0
   \<and> releaseDebouncePeriod (Button_InitWithLongPressMs zeroButton 0 0 3 1) = 0
   \<and> longPressPeriod (Button_InitWithLongPressMs zeroButton 0 0 3 1) = 3
   \<and> flags (Button_InitWithLongPressMs zeroButton 0 0 3 1) = noFlags
   \<and> \<not> longPress (flags (run_ticks (Button_InitWithLongPressMs zeroButton 0 0 3 1)
          [True, True, True]))
   \<and> longPress (flags (run_ticks (Button_InitWithLongPressMs zeroButton 0 0 3 1)
        [True, True, True, True]))
   \<and> \<not> shortPress (flags (run_ticks (Button_InitWithLongPressMs zeroButton 0 0 3 1)
          [True, True, True, True, False]))
   \<and> buttonUpEvent (flags (run_ticks (Button_InitWithLongPressMs zeroButton 0 0 3 1)
        [True, True, True, True, False]))"
proof -
  let ?s = "Button_InitWithLongPressMs zeroButton 0 0 3 1"
  have h: "buttonType ?s = LONG_PRESS_TYPE" "buttonState ?s = BUTTON_UP"
    "pressDebouncePeriod ?s = 0" "releaseDebouncePeriod ?s = 0" "longPressPeriod ?s = 3"
    "flags ?s = noFlags"
    by (simp_all add: init_defs Let_def)
  from C3_long_press_scenario [OF h] h show ?thesis by (simp add: noFlags_def)
qed

section \<open>A bounce at the end of the release debounce\<close>

text \<open>
  Claim C1 says that a \<open>DEBOUNCE_RELEASE\<close> tick on which the counter reaches the release
  debounce period while the sample is asserted again goes back to \<open>BUTTON_DOWN\<close>. The
  source assigns \<open>BUTTON_UP\<close> in that branch. Here the instance has a release debounce
  period of 2 and is held, released for one tick and pressed again: the fourth tick
  finds the counter at 1, makes it 2, sees the sample asserted and leaves the instance
  in \<open>BUTTON_UP\<close>, with no \<open>buttonUpEvent\<close>.
\<close>

theorem C1_release_bounce_ends_in_BUTTON_UP:
  "releaseDebouncePeriod (Button_InitMs zeroButton 0 2 1) = 2
   \<and> buttonState (run_ticks (Button_InitMs zeroButton 0 2 1) [True]) = BUTTON_DOWN
   \<and> buttonState (run_ticks (Button_InitMs zeroButton 0 2 1) [True, False]) = DEBOUNCE_RELEASE
   \<and> buttonState (run_ticks (Button_InitMs zeroButton 0 2 1) [True, False, True])
        = DEBOUNCE_RELEASE
   \<and> debounceCounter (run_ticks (Button_InitMs zeroButton 0 2 1) [True, False, True]) = 1
   \<and> buttonState (run_ticks (Button_InitMs zeroButton 0 2 1) [True, False, True, True])
        = BUTTON_UP
   \<and> \<not> buttonUpEvent (flags (run_ticks (Button_InitMs zeroButton 0 2 1)
          [True, False, True, True]))"
  by (simp add: tick_defs init_defs Let_def)

text \<open>
  Claim C2 says that two ticks raising \<open>buttonDownEvent\<close> are always separated by a
  tick raising \<open>buttonUpEvent\<close>. With a release debounce period of 1 and the samples
  asserted, deasserted, asserted, asserted, the first and the fourth tick raise
  \<open>buttonDownEvent\<close> and neither tick in between raises \<open>buttonUpEvent\<close>: the third
  tick ends the release debounce with the sample asserted and leaves the instance in
  \<open>BUTTON_UP\<close>, from where the fourth tick sees a new press.
\<close>

theorem C2_two_down_events_without_up_event:
  "raisesDown (Button_InitMs zeroButton 0 1 1) True
   \<and> \<not> raisesUp (run_ticks (Button_InitMs zeroButton 0 1 1) [True]) False
   \<and> \<not> raisesUp (run_ticks (Button_InitMs zeroButton 0 1 1) [True, False]) True
   \<and> buttonState (run_ticks (Button_InitMs zeroButton 0 1 1) [True, False, True]) = BUTTON_UP
   \<and> raisesDown (run_ticks (Button_InitMs zeroButton 0 1 1) [True, False, True]) True
   \<and> \<not> buttonUpEvent (flags (run_ticks (Button_InitMs zeroButton 0 1 1)
          [True, False, True, True]))"
  by (simp add: tick_defs init_defs raises_defs accessor_defs Let_def)

section \<open>Up events alternate with down events\<close>

lemma raisesUp_from:
  "raisesUp u b \<Longrightarrow>
     (buttonState u = BUTTON_DOWN \<or> buttonState u = DEBOUNCE_RELEASE)
   \<and> buttonState (Button_Tick u b) = BUTTON_UP"
  by (cases "buttonState u"; cases b)
     (auto simp: raises_defs accessor_defs tick_defs Let_def split: if_splits)

lemma no_down_stays_released:
  "buttonState t = BUTTON_UP \<or> buttonState t = DEBOUNCE_PRESS \<Longrightarrow> \<not> raisesDown t b \<Longrightarrow>
   buttonState (Button_Tick t b) = BUTTON_UP \<or> buttonState (Button_Tick t b) = DEBOUNCE_PRESS"
  by (cases "buttonState t"; cases b)
     (auto simp: raises_defs accessor_defs tick_defs Let_def split: if_splits)

lemma run_no_down_stays_released:
  "buttonState t = BUTTON_UP \<or> buttonState t = DEBOUNCE_PRESS \<Longrightarrow>
   (\<And>cs c ds. bs = cs @ c # ds \<Longrightarrow> \<not> raisesDown (run_ticks t cs) c) \<Longrightarrow>
   buttonState (run_ticks t bs) = BUTTON_UP \<or> buttonState (run_ticks t bs) = DEBOUNCE_PRESS"
proof (induction bs arbitrary: t)
  case Nil
  then show ?case by simp
next
  case (Cons b bs)
  have "\<not> raisesDown (run_ticks t []) b"
    by (rule Cons.prems(2) [of "[]" b bs]) simp
  then have "\<not> raisesDown t b" by simp
  from no_down_stays_released [OF Cons.prems(1) this]
  have st: "buttonState (Button_Tick t b) = BUTTON_UP
          \<or> buttonState (Button_Tick t b) = DEBOUNCE_PRESS" .
  have "\<not> raisesDown (run_ticks (Button_Tick t b) cs) c" if "bs = cs @ c # ds" for cs c ds
    using Cons.prems(2) [of "b # cs" c ds] that by simp
  from Cons.IH [OF st this] show ?case by simp
qed

text \<open>
  In the other direction the events do alternate, from any state and for any samples:
  when a tick raises \<open>buttonUpEvent\<close> and a later tick raises it again, some tick in
  between raises \<open>buttonDownEvent\<close>. Here \<open>as\<close> are the samples before the first of the
  two ticks, \<open>b1\<close> and \<open>b2\<close> the samples of the two ticks, and \<open>bs\<close> the samples between.
\<close>

lemma up_events_alternate:
  assumes "raisesUp (run_ticks s as) b1"
    and "raisesUp (run_ticks s (as @ b1 # bs)) b2"
  shows "\<exists>cs c ds. bs = cs @ c # ds \<and> raisesDown (run_ticks s (as @ b1 # cs)) c"
proof (rule ccontr)
  assume neg: "\<not> ?thesis"
  let ?t = "Button_Tick (run_ticks s as) b1"
  have run: "run_ticks s (as @ b1 # xs) = run_ticks ?t xs" for xs
    by (simp add: run_ticks_append)
  from raisesUp_from [OF assms(1)] have st: "buttonState ?t = BUTTON_UP \<or> buttonState ?t = DEBOUNCE_PRESS"
    by simp
  have "\<not> raisesDown (run_ticks ?t cs) c" if "bs = cs @ c # ds" for cs c ds
    using neg that run by auto
  from run_no_down_stays_released [OF st this]
  have "buttonState (run_ticks ?t bs) = BUTTON_UP \<or> buttonState (run_ticks ?t bs) = DEBOUNCE_PRESS"
    by simp
  moreover from raisesUp_from [OF assms(2)]
  have "buttonState (run_ticks ?t bs) = BUTTON_DOWN \<or> buttonState (run_ticks ?t bs) = DEBOUNCE_RELEASE"
    by (simp add: run)
  ultimately show False by auto
qed

lemma up_events_alternate_witness:
  "raisesUp (run_ticks (Button_InitMs zeroButton 0 0 1) [True]) False
   \<and> raisesUp (run_ticks (Button_InitMs zeroButton 0 0 1) ([True] @ False # [True])) False
   \<and> (\<exists>cs c ds. [True] = cs @ c # ds
         \<and> raisesDown (run_ticks (Button_InitMs zeroButton 0 0 1) ([True] @ False # cs)) c)"
proof -
  have h: "raisesUp (run_ticks (Button_InitMs zeroButton 0 0 1) [True]) False"
    "raisesUp (run_ticks (Button_InitMs zeroButton 0 0 1) ([True] @ False # [True])) False"
    by (simp_all add: tick_defs init_defs raises_defs accessor_defs Let_def)
  from up_events_alternate [OF h] h show ?thesis by blast
qed

section \<open>Sticky flags\<close>

lemma call_keeps_flags:
  "(buttonDownEvent (flags s) \<and> c \<noteq> ClearButtonDownFlag
      \<longrightarrow> buttonDownEvent (flags (call s c)))
   \<and> (buttonUpEvent (flags s) \<and> c \<noteq> ClearButtonUpFlag
      \<longrightarrow> buttonUpEvent (flags (call s c)))
   \<and> (shortPress (flags s) \<and> c \<noteq> ClearShortPressFlag
      \<longrightarrow> shortPress (flags (call s c)))
   \<and> (longPress (flags s) \<and> c \<noteq> ClearLongPressFlag
      \<longrightarrow> longPress (flags (call s c)))"
proof (cases c)
  case (Tick b)
  then show ?thesis using tick_keeps_flags [of s b] by simp
qed (simp_all add: accessor_defs)

lemma run_calls_keep_flags:
  "(buttonDownEvent (flags s) \<and> ClearButtonDownFlag \<notin> set cs
      \<longrightarrow> buttonDownEvent (flags (run_calls s cs)))
   \<and> (buttonUpEvent (flags s) \<and> ClearButtonUpFlag \<notin> set cs
      \<longrightarrow> buttonUpEvent (flags (run_calls s cs)))
   \<and> (shortPress (flags s) \<and> ClearShortPressFlag \<notin> set cs
      \<longrightarrow> shortPress (flags (run_calls s cs)))
   \<and> (longPress (flags s) \<and> ClearLongPressFlag \<notin> set cs
      \<longrightarrow> longPress (flags (run_calls s cs)))"
proof (induction cs arbitrary: s)
  case Nil
  show ?case by simp
next
  case (Cons c cs)
  show ?case using call_keeps_flags [of s c] Cons.IH [of "call s c"] by auto
qed

text \<open>
  Claim C5. A flag that is set stays set over any sequence of ticks and clear calls
  that does not hold the flag's own clear accessor, whatever the ticks do; a single
  tick never clears a flag; and each clear accessor clears its own flag.
\<close>

theorem C5_flags_stay_set_until_cleared:
  "(buttonDownEvent (flags s) \<and> ClearButtonDownFlag \<notin> set cs
      \<longrightarrow> buttonDownEvent (flags (run_calls s cs)))
   \<and> (buttonUpEvent (flags s) \<and> ClearButtonUpFlag \<notin> set cs
      \<longrightarrow> buttonUpEvent (flags (run_calls s cs)))
   \<and> (shortPress (flags s) \<and> ClearShortPressFlag \<notin> set cs
      \<longrightarrow> shortPress (flags (run_calls s cs)))
   \<and> (longPress (flags s) \<and> ClearLongPressFlag \<notin> set cs
      \<longrightarrow> longPress (flags (run_calls s cs)))
   \<and> (buttonDownEvent (flags s) \<longrightarrow> buttonDownEvent (flags (Button_Tick s b)))
   \<and> (buttonUpEvent (flags s) \<longrightarrow> buttonUpEvent (flags (Button_Tick s b)))
   \<and> (shortPress (flags s) \<longrightarrow> shortPress (flags (Button_Tick s b)))
   \<and> (longPress (flags s) \<longrightarrow> longPress (flags (Button_Tick s b)))
   \<and> \<not> buttonDownEvent (flags (Button_ClearButtonDownFlag s))
   \<and> \<not> buttonUpEvent (flags (Button_ClearButtonUpFlag s))
   \<and> \<not> shortPress (flags (Button_ClearShortPressFlag s))
   \<and> \<not> longPress (flags (Button_ClearLongPressFlag s))"
  using run_calls_keep_flags [of s cs] tick_keeps_flags [of s b]
  by (simp add: accessor_defs)

theorem C5_flags_stay_set_witness:
  "buttonDownEvent (flags (run_ticks (Button_InitMs zeroButton 0 0 1) [True]))
   \<and> shortPress (flags (run_ticks (Button_InitMs zeroButton 0 0 1) [True]))
   \<and> ClearButtonDownFlag \<notin> set [Tick True, Tick False, ClearShortPressFlag, Tick False]
   \<and> buttonDownEvent (flags (run_calls (run_ticks (Button_InitMs zeroButton 0 0 1) [True])
        [Tick True, Tick False, ClearShortPressFlag, Tick False]))
   \<and> shortPress (flags (Button_Tick (run_ticks (Button_InitMs zeroButton 0 0 1) [True]) False))
   \<and> \<not> shortPress (flags (Button_ClearShortPressFlag
          (run_ticks (Button_InitMs zeroButton 0 0 1) [True])))"
proof -
  let ?s = "run_ticks (Button_InitMs zeroButton 0 0 1) [True]"
  have h: "buttonDownEvent (flags ?s)" "shortPress (flags ?s)"
    by (simp_all add: tick_defs init_defs Let_def)
  have n: "ClearButtonDownFlag \<notin> set [Tick True, Tick False, ClearShortPressFlag, Tick False]"
    by simp
  from C5_flags_stay_set_until_cleared
         [of ?s "[Tick True, Tick False, ClearShortPressFlag, Tick False]" False] h n
  show ?thesis by simp
qed

section \<open>Bounds on the counters\<close>

lemma word16_inc_less:
  fixes x y :: "16 word"
  shows "x < y \<Longrightarrow> x + 1 \<noteq> y \<Longrightarrow> x + 1 < y"
  using inc_le [of x y] by simp

lemma word16_pos: "(x :: 16 word) \<noteq> 0 \<Longrightarrow> 0 < x"
  by (simp add: word_greater_zero_iff)

lemma tick_periods [simp]:
  "pressDebouncePeriod (Button_Tick s b) = pressDebouncePeriod s"
  "releaseDebouncePeriod (Button_Tick s b) = releaseDebouncePeriod s"
  "longPressPeriod (Button_Tick s b) = longPressPeriod s"
  "buttonType (Button_Tick s b) = buttonType s"
  by (cases "buttonState s"; simp add: tick_defs Let_def)+

lemma tick_counters_ok: "counters_ok s \<Longrightarrow> counters_ok (Button_Tick s b)"
  by (cases "buttonState s"; cases b)
     (auto simp: counters_ok_def tick_defs Let_def word16_inc_less word16_pos inc_le)

lemma tick_lpc_le:
  "longPressCounter s \<le> longPressPeriod s
     \<Longrightarrow> longPressCounter (Button_Tick s b) \<le> longPressPeriod s"
  by (cases "buttonState s"; cases b) (auto simp: tick_defs Let_def inc_le)

lemma run_periods [simp]:
  "pressDebouncePeriod (run_ticks s bs) = pressDebouncePeriod s"
  "releaseDebouncePeriod (run_ticks s bs) = releaseDebouncePeriod s"
  "longPressPeriod (run_ticks s bs) = longPressPeriod s"
  "buttonType (run_ticks s bs) = buttonType s"
  by (induction bs arbitrary: s; simp)+

lemma run_counters_ok: "counters_ok s \<Longrightarrow> counters_ok (run_ticks s bs)"
  by (induction bs arbitrary: s) (simp_all add: tick_counters_ok)

lemma run_lpc_le:
  "longPressCounter s \<le> longPressPeriod s
     \<Longrightarrow> longPressCounter (run_ticks s bs) \<le> longPressPeriod s"
proof (induction bs arbitrary: s)
  case Nil
  then show ?case by simp
next
  case (Cons b bs)
  from tick_lpc_le [OF Cons.prems, of b]
  have "longPressCounter (Button_Tick s b) \<le> longPressPeriod (Button_Tick s b)" by simp
  from Cons.IH [OF this] show ?case by simp
qed

lemma init_counters_ok: "counters_ok (Button_InitWithLongPressMs s0 p r l t)"
  by (simp add: counters_ok_def init_state)

lemma tick_debounce_exit:
  "buttonState s = DEBOUNCE_PRESS \<Longrightarrow>
     debounceCounter (Button_Tick s b) = debounceCounter s + 1
   \<and> (buttonState (Button_Tick s b) \<noteq> DEBOUNCE_PRESS
        \<longleftrightarrow> debounceCounter (Button_Tick s b) = pressDebouncePeriod s)"
  "buttonState s = DEBOUNCE_RELEASE \<Longrightarrow>
     debounceCounter (Button_Tick s b) = debounceCounter s + 1
   \<and> (buttonState (Button_Tick s b) \<noteq> DEBOUNCE_RELEASE
        \<longleftrightarrow> debounceCounter (Button_Tick s b) = releaseDebouncePeriod s)"
  by (simp_all add: tick_defs Let_def)

lemma unat_inc16:
  fixes x y :: "16 word"
  assumes "unat x < unat y"
  shows "unat (x + 1) = Suc (unat x)"
proof -
  have "unat y < 2 ^ LENGTH(16)" by (rule unsigned_less)
  then have "unat y < 2 ^ 16" by simp
  with assms have "unat x + 1 < 2 ^ 16" by arith
  then show ?thesis by (simp add: unat_word_ariths)
qed

lemma tick_lpc_advance:
  assumes "unat (longPressCounter s) < unat (longPressCounter (Button_Tick s b))"
  shows "buttonState s = BUTTON_DOWN \<and> b \<and> buttonType s = LONG_PRESS_TYPE
       \<and> longPressCounter s < longPressPeriod s
       \<and> unat (longPressCounter (Button_Tick s b)) = unat (longPressCounter s) + 1
       \<and> longPressCounter (Button_Tick s b) \<le> longPressPeriod s"
proof (cases "buttonState s = BUTTON_DOWN \<and> b \<and> buttonType s = LONG_PRESS_TYPE
       \<and> longPressCounter s < longPressPeriod s")
  case True
  then have "longPressCounter (Button_Tick s b) = longPressCounter s + 1"
    by (simp add: tick_defs Let_def)
  moreover from True have "unat (longPressCounter s) < unat (longPressPeriod s)"
    by (simp add: word_less_nat_alt)
  ultimately show ?thesis using True by (simp add: unat_inc16 inc_le)
next
  case False
  then have "longPressCounter (Button_Tick s b) = longPressCounter s
           \<or> longPressCounter (Button_Tick s b) = 0"
    by (cases "buttonState s"; cases b) (auto simp: tick_defs Let_def)
  with assms show ?thesis by auto
qed

text \<open>
  Initialisation assigns neither counter. An instance that was held for five ticks with
  a long-press period of 5 and is then initialised again with a long-press period of 3
  is in \<open>BUTTON_UP\<close> with a long-press counter of 5, above the new period.
\<close>

theorem C6_stale_long_press_counter_after_init:
  "\<not> longPressCounter
        (Button_InitWithLongPressMs
           (run_ticks (Button_InitWithLongPressMs zeroButton 0 0 5 1)
              [True, True, True, True, True, True, False]) 0 0 3 1)
      \<le> longPressPeriod
        (Button_InitWithLongPressMs
           (run_ticks (Button_InitWithLongPressMs zeroButton 0 0 5 1)
              [True, True, True, True, True, True, False]) 0 0 3 1)"
  by (simp add: tick_defs init_defs Let_def)

text \<open>
  Claim C6, amended. In every state \<open>s\<close> reached by ticks after an initialisation, of
  an instance with any previous contents: in a debounce state the debounce counter is
  below that state's period, the next tick takes it to at most the period, and that
  tick leaves the debounce state exactly when the counter reaches the period; the
  long-press counter grows on a tick only in \<open>BUTTON_DOWN\<close> with the sample asserted,
  by one and to at most the long-press period; it is at most the long-press period in
  \<open>BUTTON_DOWN\<close> and \<open>DEBOUNCE_RELEASE\<close>, and in every state when it was so right after
  the initialisation; and once it has reached the period no tick makes it grow.
\<close>

theorem C6_counters_within_thresholds:
  assumes "s = run_ticks (Button_InitWithLongPressMs s0 p r l t) bs"
  shows "(buttonState s = DEBOUNCE_PRESS \<longrightarrow> debounceCounter s < pressDebouncePeriod s)
       \<and> (buttonState s = DEBOUNCE_RELEASE \<longrightarrow> debounceCounter s < releaseDebouncePeriod s)
       \<and> (buttonState s = DEBOUNCE_PRESS \<longrightarrow>
            debounceCounter (Button_Tick s b) \<le> pressDebouncePeriod s
          \<and> (buttonState (Button_Tick s b) \<noteq> DEBOUNCE_PRESS
               \<longleftrightarrow> debounceCounter (Button_Tick s b) = pressDebouncePeriod s))
       \<and> (buttonState s = DEBOUNCE_RELEASE \<longrightarrow>
            debounceCounter (Button_Tick s b) \<le> releaseDebouncePeriod s
          \<and> (buttonState (Button_Tick s b) \<noteq> DEBOUNCE_RELEASE
               \<longleftrightarrow> debounceCounter (Button_Tick s b) = releaseDebouncePeriod s))
       \<and> (unat (longPressCounter s) < unat (longPressCounter (Button_Tick s b)) \<longrightarrow>
            buttonState s = BUTTON_DOWN \<and> b
          \<and> unat (longPressCounter (Button_Tick s b)) = unat (longPressCounter s) + 1
          \<and> longPressCounter (Button_Tick s b) \<le> longPressPeriod s)
       \<and> (buttonState s = BUTTON_DOWN \<or> buttonState s = DEBOUNCE_RELEASE \<longrightarrow>
            longPressCounter s \<le> longPressPeriod s)
       \<and> (longPressCounter (Button_InitWithLongPressMs s0 p r l t)
             \<le> longPressPeriod (Button_InitWithLongPressMs s0 p r l t) \<longrightarrow>
            longPressCounter s \<le> longPressPeriod s)
       \<and> (longPressPeriod s \<le> longPressCounter s \<longrightarrow>
            \<not> unat (longPressCounter s) < unat (longPressCounter (Button_Tick s b)))"
proof -
  have ok: "counters_ok s"
    unfolding assms by (rule run_counters_ok [OF init_counters_ok])
  have a: "buttonState s = DEBOUNCE_PRESS \<longrightarrow> debounceCounter s < pressDebouncePeriod s"
    and b: "buttonState s = DEBOUNCE_RELEASE \<longrightarrow> debounceCounter s < releaseDebouncePeriod s"
    and f: "buttonState s = BUTTON_DOWN \<or> buttonState s = DEBOUNCE_RELEASE \<longrightarrow>
            longPressCounter s \<le> longPressPeriod s"
    using ok by (simp_all add: counters_ok_def)
  have c: "buttonState s = DEBOUNCE_PRESS \<longrightarrow>
            debounceCounter (Button_Tick s b) \<le> pressDebouncePeriod s
          \<and> (buttonState (Button_Tick s b) \<noteq> DEBOUNCE_PRESS
               \<longleftrightarrow> debounceCounter (Button_Tick s b) = pressDebouncePeriod s)"
    using a tick_debounce_exit(1) [of s b] by (simp add: inc_le)
  have d: "buttonState s = DEBOUNCE_RELEASE \<longrightarrow>
            debounceCounter (Button_Tick s b) \<le> releaseDebouncePeriod s
          \<and> (buttonState (Button_Tick s b) \<noteq> DEBOUNCE_RELEASE
               \<longleftrightarrow> debounceCounter (Button_Tick s b) = releaseDebouncePeriod s)"
    using b tick_debounce_exit(2) [of s b] by (simp add: inc_le)
  have e: "unat (longPressCounter s) < unat (longPressCounter (Button_Tick s b)) \<longrightarrow>
            buttonState s = BUTTON_DOWN \<and> b
          \<and> unat (longPressCounter (Button_Tick s b)) = unat (longPressCounter s) + 1
          \<and> longPressCounter (Button_Tick s b) \<le> longPressPeriod s"
    using tick_lpc_advance [of s b] by blast
  have g: "longPressCounter (Button_InitWithLongPressMs s0 p r l t)
             \<le> longPressPeriod (Button_InitWithLongPressMs s0 p r l t) \<longrightarrow>
            longPressCounter s \<le> longPressPeriod s"
    unfolding assms using run_lpc_le [of "Button_InitWithLongPressMs s0 p r l t" bs] by simp
  have h: "longPressPeriod s \<le> longPressCounter s \<longrightarrow>
            \<not> unat (longPressCounter s) < unat (longPressCounter (Button_Tick s b))"
    using tick_lpc_advance [of s b] by auto
  from a b c d e f g h show ?thesis by blast
qed

theorem C6_counters_witness:
  "buttonState (run_ticks (Button_InitWithLongPressMs zeroButton 3 2 5 1) [True, False])
     = DEBOUNCE_PRESS
   \<and> debounceCounter (run_ticks (Button_InitWithLongPressMs zeroButton 3 2 5 1) [True, False])
     = 1
   \<and> debounceCounter (run_ticks (Button_InitWithLongPressMs zeroButton 3 2 5 1) [True, False])
     < pressDebouncePeriod
         (run_ticks (Button_InitWithLongPressMs zeroButton 3 2 5 1) [True, False])
   \<and> buttonState (run_ticks (Button_InitWithLongPressMs zeroButton 0 0 3 1)
        [True, True, True, True]) = BUTTON_DOWN
   \<and> longPressCounter (run_ticks (Button_InitWithLongPressMs zeroButton 0 0 3 1)
        [True, True, True, True]) = 3
   \<and> longPressCounter (run_ticks (Button_InitWithLongPressMs zeroButton 0 0 3 1)
        [True, True, True, True])
     \<le> longPressPeriod (run_ticks (Button_InitWithLongPressMs zeroButton 0 0 3 1)
        [True, True, True, True])
   \<and> \<not> unat (longPressCounter (run_ticks (Button_InitWithLongPressMs zeroButton 0 0 3 1)
          [True, True, True, True]))
       < unat (longPressCounter (Button_Tick
           (run_ticks (Button_InitWithLongPressMs zeroButton 0 0 3 1)
              [True, True, True, True]) True))"
proof -
  let ?a = "run_ticks (Button_InitWithLongPressMs zeroButton 3 2 5 1) [True, False]"
  let ?b = "run_ticks (Button_InitWithLongPressMs zeroButton 0 0 3 1) [True, True, True, True]"
  have h: "buttonState ?a = DEBOUNCE_PRESS" "debounceCounter ?a = 1"
    "buttonState ?b = BUTTON_DOWN" "longPressCounter ?b = 3" "longPressPeriod ?b = 3"
    by (simp_all add: tick_defs init_defs Let_def)
  from C6_counters_within_thresholds [OF refl, of zeroButton 3 2 5 1 "[True, False]" True]
    C6_counters_within_thresholds [OF refl, of zeroButton 0 0 3 1 "[True, True, True, True]" True]
    h
  show ?thesis by simp
qed

section \<open>Waiting in a debounce state\<close>

lemma tick_UP_idle: "buttonState s = BUTTON_UP \<Longrightarrow> Button_Tick s False = s"
  by (simp add: tick_defs)

lemma tick_UP_debounce:
  "buttonState s = BUTTON_UP \<Longrightarrow> pressDebouncePeriod s \<noteq> 0 \<Longrightarrow>
   Button_Tick s True = s\<lparr>buttonState := DEBOUNCE_PRESS, debounceCounter := 0\<rparr>"
  by (simp add: tick_defs)

lemma tick_PRESS_wait:
  "buttonState s = DEBOUNCE_PRESS \<Longrightarrow> debounceCounter s + 1 \<noteq> pressDebouncePeriod s \<Longrightarrow>
   Button_Tick s b = s\<lparr>debounceCounter := debounceCounter s + 1\<rparr>"
  by (simp add: tick_defs Let_def)

lemma tick_PRESS_reject:
  "buttonState s = DEBOUNCE_PRESS \<Longrightarrow> debounceCounter s + 1 = pressDebouncePeriod s \<Longrightarrow>
   Button_Tick s False = s\<lparr>debounceCounter := pressDebouncePeriod s, buttonState := BUTTON_UP\<rparr>"
  by (simp add: tick_defs Let_def)

lemma tick_PRESS_accept:
  "buttonState s = DEBOUNCE_PRESS \<Longrightarrow> debounceCounter s + 1 = pressDebouncePeriod s \<Longrightarrow>
   Button_Tick s True =
     s\<lparr>debounceCounter := pressDebouncePeriod s,
       flags := (flags s)\<lparr>shortPress := (buttonType s = SHORT_PRESS_TYPE \<or> shortPress (flags s)),
                          buttonDownEvent := True\<rparr>,
       buttonState := BUTTON_DOWN, longPressCounter := 0\<rparr>"
  by (simp add: tick_defs Let_def)

lemma tick_RELEASE_wait:
  "buttonState s = DEBOUNCE_RELEASE \<Longrightarrow> debounceCounter s + 1 \<noteq> releaseDebouncePeriod s \<Longrightarrow>
   Button_Tick s b = s\<lparr>debounceCounter := debounceCounter s + 1\<rparr>"
  by (simp add: tick_defs Let_def)

lemma tick_RELEASE_accept:
  "buttonState s = DEBOUNCE_RELEASE \<Longrightarrow> debounceCounter s + 1 = releaseDebouncePeriod s \<Longrightarrow>
   Button_Tick s False =
     s\<lparr>debounceCounter := releaseDebouncePeriod s,
       flags := (flags s)\<lparr>shortPress := (buttonType s = LONG_PRESS_TYPE \<and> longPressCounter s < longPressPeriod s \<or> shortPress (flags s)),
                          buttonUpEvent := True\<rparr>,
       buttonState := BUTTON_UP\<rparr>"
  by (simp add: tick_defs Let_def)

lemma tick_RELEASE_reject:
  "buttonState s = DEBOUNCE_RELEASE \<Longrightarrow> debounceCounter s + 1 = releaseDebouncePeriod s \<Longrightarrow>
   Button_Tick s True = s\<lparr>debounceCounter := releaseDebouncePeriod s, buttonState := BUTTON_UP\<rparr>"
  by (simp add: tick_defs Let_def)

lemma run_PRESS_wait:
  "buttonState s = DEBOUNCE_PRESS \<Longrightarrow> unat (debounceCounter s) + length xs < unat (pressDebouncePeriod s) \<Longrightarrow>
   run_ticks s xs = s\<lparr>debounceCounter := debounceCounter s + of_nat (length xs)\<rparr>"
proof (induction xs arbitrary: s)
  case Nil
  then show ?case by simp
next
  case (Cons b xs)
  let ?t = "s\<lparr>debounceCounter := debounceCounter s + 1\<rparr>"
  from Cons.prems have lt: "unat (debounceCounter s) < unat (pressDebouncePeriod s)" by simp
  have u: "unat (debounceCounter s + 1) = Suc (unat (debounceCounter s))"
    by (rule unat_inc16 [OF lt])
  have ne: "debounceCounter s + 1 \<noteq> pressDebouncePeriod s"
  proof
    assume "debounceCounter s + 1 = pressDebouncePeriod s"
    then have "unat (debounceCounter s + 1) = unat (pressDebouncePeriod s)" by simp
    with u Cons.prems(2) show False by simp
  qed
  have step: "Button_Tick s b = ?t"
    by (rule tick_PRESS_wait [OF Cons.prems(1) ne])
  have "run_ticks ?t xs = ?t\<lparr>debounceCounter := debounceCounter ?t + of_nat (length xs)\<rparr>"
    using Cons.prems u by (intro Cons.IH) simp_all
  then show ?case by (simp add: step add.assoc)
qed

lemma run_UP_idle: "buttonState s = BUTTON_UP \<Longrightarrow> run_ticks s (replicate m False) = s"
  by (induction m) (simp_all add: tick_UP_idle)


lemma run_RELEASE_wait:
  "buttonState s = DEBOUNCE_RELEASE \<Longrightarrow>
   unat (debounceCounter s) + length xs < unat (releaseDebouncePeriod s) \<Longrightarrow>
   run_ticks s xs = s\<lparr>debounceCounter := debounceCounter s + of_nat (length xs)\<rparr>"
proof (induction xs arbitrary: s)
  case Nil
  then show ?case by simp
next
  case (Cons b xs)
  let ?t = "s\<lparr>debounceCounter := debounceCounter s + 1\<rparr>"
  from Cons.prems have lt: "unat (debounceCounter s) < unat (releaseDebouncePeriod s)" by simp
  have u: "unat (debounceCounter s + 1) = Suc (unat (debounceCounter s))"
    by (rule unat_inc16 [OF lt])
  have ne: "debounceCounter s + 1 \<noteq> releaseDebouncePeriod s"
  proof
    assume "debounceCounter s + 1 = releaseDebouncePeriod s"
    then have "unat (debounceCounter s + 1) = unat (releaseDebouncePeriod s)" by simp
    with u Cons.prems(2) show False by simp
  qed
  have step: "Button_Tick s b = ?t"
    by (rule tick_RELEASE_wait [OF Cons.prems(1) ne])
  have "run_ticks ?t xs = ?t\<lparr>debounceCounter := debounceCounter ?t + of_nat (length xs)\<rparr>"
    using Cons.prems u by (intro Cons.IH) simp_all
  then show ?case by (simp add: step add.assoc)
qed

lemma unat_add_of_nat16:
  fixes x y :: "16 word"
  assumes "unat x + n < unat y"
  shows "unat (x + of_nat n) = unat x + n"
proof -
  have "unat y < 2 ^ LENGTH(16)" by (rule unsigned_less)
  then have "unat y < 65536" by simp
  with assms have "unat x + n < 65536" by arith
  then show ?thesis by (simp add: unat_word_ariths unat_of_nat)
qed

lemma threshold_next:
  fixes x y :: "16 word"
  assumes "unat x + n + 1 = unat y"
  shows "x + of_nat n + 1 = y"
proof -
  from assms have lt: "unat x + n < unat y" by arith
  have "unat (x + of_nat n) = unat x + n" by (rule unat_add_of_nat16 [OF lt])
  moreover from this lt have "unat (x + of_nat n + 1) = Suc (unat (x + of_nat n))"
    by (intro unat_inc16 [of _ y]) simp
  ultimately have "unat (x + of_nat n + 1) = unat y" using assms by simp
  then show ?thesis by (simp add: word_unat_eq_iff)
qed

text \<open>
  In \<open>DEBOUNCE_PRESS\<close> (and likewise in \<open>DEBOUNCE_RELEASE\<close>), over any samples \<open>xs\<close>
  that do not yet take the debounce counter to the period, the instance only counts:
  the state, the flags and everything else stay as they are and the counter has grown
  by the number of ticks, whatever the samples were. When the next tick is the one on
  which the counter reaches the period, its outcome is the same after any other
  samples \<open>ys\<close> of the same number, and depends on its own sample \<open>b\<close> only. At the
  end of a press debounce the instance is in \<open>BUTTON_DOWN\<close> with \<open>buttonDownEvent\<close>
  raised exactly when \<open>b\<close> is asserted, and otherwise back in \<open>BUTTON_UP\<close> with its
  flags untouched. At the end of a release debounce \<open>buttonUpEvent\<close> is raised exactly
  when \<open>b\<close> is deasserted and the flags are untouched otherwise, but the instance is in
  \<open>BUTTON_UP\<close> for either sample.
\<close>

lemma debounce_decided_by_threshold_sample:
  "(buttonState s = DEBOUNCE_PRESS
      \<and> unat (debounceCounter s) + length xs < unat (pressDebouncePeriod s) \<longrightarrow>
        run_ticks s xs = s\<lparr>debounceCounter := debounceCounter s + of_nat (length xs)\<rparr>
      \<and> unat (debounceCounter (run_ticks s xs)) = unat (debounceCounter s) + length xs
      \<and> (unat (debounceCounter s) + length xs + 1 = unat (pressDebouncePeriod s) \<longrightarrow>
            (length ys = length xs \<longrightarrow> run_ticks s (ys @ [b]) = run_ticks s (xs @ [b]))
          \<and> (buttonState (run_ticks s (xs @ [b])) = BUTTON_DOWN \<longleftrightarrow> b)
          \<and> (raisesDown (run_ticks s xs) b \<longleftrightarrow> b)
          \<and> (\<not> b \<longrightarrow> buttonState (run_ticks s (xs @ [b])) = BUTTON_UP
                     \<and> flags (run_ticks s (xs @ [b])) = flags s)))
   \<and> (buttonState s = DEBOUNCE_RELEASE
      \<and> unat (debounceCounter s) + length xs < unat (releaseDebouncePeriod s) \<longrightarrow>
        run_ticks s xs = s\<lparr>debounceCounter := debounceCounter s + of_nat (length xs)\<rparr>
      \<and> unat (debounceCounter (run_ticks s xs)) = unat (debounceCounter s) + length xs
      \<and> (unat (debounceCounter s) + length xs + 1 = unat (releaseDebouncePeriod s) \<longrightarrow>
            (length ys = length xs \<longrightarrow> run_ticks s (ys @ [b]) = run_ticks s (xs @ [b]))
          \<and> (raisesUp (run_ticks s xs) b \<longleftrightarrow> \<not> b)
          \<and> buttonState (run_ticks s (xs @ [b])) = BUTTON_UP
          \<and> (buttonUpEvent (flags (run_ticks s (xs @ [b])))
               \<longleftrightarrow> buttonUpEvent (flags s) \<or> \<not> b)
          \<and> (b \<longrightarrow> flags (run_ticks s (xs @ [b])) = flags s)))"
proof (intro conjI impI; elim conjE)
  assume st: "buttonState s = DEBOUNCE_PRESS"
    and lt: "unat (debounceCounter s) + length xs < unat (pressDebouncePeriod s)"
  show "run_ticks s xs = s\<lparr>debounceCounter := debounceCounter s + of_nat (length xs)\<rparr>"
    by (rule run_PRESS_wait [OF st lt])
  then show "unat (debounceCounter (run_ticks s xs)) = unat (debounceCounter s) + length xs"
    by (simp add: unat_add_of_nat16 [OF lt])
next
  assume st: "buttonState s = DEBOUNCE_PRESS"
    and lt: "unat (debounceCounter s) + length xs < unat (pressDebouncePeriod s)"
    and n: "unat (debounceCounter s) + length xs + 1 = unat (pressDebouncePeriod s)"
  let ?t = "s\<lparr>debounceCounter := debounceCounter s + of_nat (length xs)\<rparr>"
  have w: "run_ticks s xs = ?t" by (rule run_PRESS_wait [OF st lt])
  have th: "debounceCounter ?t + 1 = pressDebouncePeriod ?t"
    using threshold_next [OF n] by simp
  have st': "buttonState ?t = DEBOUNCE_PRESS" using st by simp
  show "run_ticks s (ys @ [b]) = run_ticks s (xs @ [b])" if "length ys = length xs"
    using that lt by (simp add: run_ticks_append run_PRESS_wait [OF st])
  show "buttonState (run_ticks s (xs @ [b])) = BUTTON_DOWN \<longleftrightarrow> b"
    using tick_PRESS_accept [OF st' th] tick_PRESS_reject [OF st' th]
    by (cases b) (simp_all add: run_ticks_append w)
  show "raisesDown (run_ticks s xs) b \<longleftrightarrow> b"
    using st' th by (cases b) (simp_all add: w raises_defs accessor_defs tick_defs Let_def)
  show "buttonState (run_ticks s (xs @ [b])) = BUTTON_UP" if "\<not> b"
    using that tick_PRESS_reject [OF st' th] by (simp add: run_ticks_append w)
  show "flags (run_ticks s (xs @ [b])) = flags s" if "\<not> b"
    using that tick_PRESS_reject [OF st' th] by (simp add: run_ticks_append w)
next
  assume st: "buttonState s = DEBOUNCE_RELEASE"
    and lt: "unat (debounceCounter s) + length xs < unat (releaseDebouncePeriod s)"
  show "run_ticks s xs = s\<lparr>debounceCounter := debounceCounter s + of_nat (length xs)\<rparr>"
    by (rule run_RELEASE_wait [OF st lt])
  then show "unat (debounceCounter (run_ticks s xs)) = unat (debounceCounter s) + length xs"
    by (simp add: unat_add_of_nat16 [OF lt])
next
  assume st: "buttonState s = DEBOUNCE_RELEASE"
    and lt: "unat (debounceCounter s) + length xs < unat (releaseDebouncePeriod s)"
    and n: "unat (debounceCounter s) + length xs + 1 = unat (releaseDebouncePeriod s)"
  let ?t = "s\<lparr>debounceCounter := debounceCounter s + of_nat (length xs)\<rparr>"
  have w: "run_ticks s xs = ?t" by (rule run_RELEASE_wait [OF st lt])
  have th: "debounceCounter ?t + 1 = releaseDebouncePeriod ?t"
    using threshold_next [OF n] by simp
  have st': "buttonState ?t = DEBOUNCE_RELEASE" using st by simp
  show "run_ticks s (ys @ [b]) = run_ticks s (xs @ [b])" if "length ys = length xs"
    using that lt by (simp add: run_ticks_append run_RELEASE_wait [OF st])
  show "raisesUp (run_ticks s xs) b \<longleftrightarrow> \<not> b"
    using st' th by (cases b) (simp_all add: w raises_defs accessor_defs tick_defs Let_def)
  show "buttonState (run_ticks s (xs @ [b])) = BUTTON_UP"
    using tick_RELEASE_accept [OF st' th] tick_RELEASE_reject [OF st' th]
    by (cases b) (simp_all add: run_ticks_append w)
  show "buttonUpEvent (flags (run_ticks s (xs @ [b]))) \<longleftrightarrow> buttonUpEvent (flags s) \<or> \<not> b"
    using tick_RELEASE_accept [OF st' th] tick_RELEASE_reject [OF st' th]
    by (cases b) (simp_all add: run_ticks_append w)
  show "flags (run_ticks s (xs @ [b])) = flags s" if "b"
    using that tick_RELEASE_reject [OF st' th] by (simp add: run_ticks_append w)
qed

lemma debounce_decided_witness:
  "buttonState (run_ticks (Button_InitMs zeroButton 3 0 1) [True]) = DEBOUNCE_PRESS
   \<and> unat (debounceCounter (run_ticks (Button_InitMs zeroButton 3 0 1) [True]))
         + length [False, True]
       < unat (pressDebouncePeriod (run_ticks (Button_InitMs zeroButton 3 0 1) [True]))
   \<and> unat (debounceCounter (run_ticks (Button_InitMs zeroButton 3 0 1) [True]))
         + length [False, True] + 1
       = unat (pressDebouncePeriod (run_ticks (Button_InitMs zeroButton 3 0 1) [True]))
   \<and> buttonState (run_ticks (run_ticks (Button_InitMs zeroButton 3 0 1) [True])
        ([False, True] @ [True])) = BUTTON_DOWN
   \<and> raisesDown (run_ticks (run_ticks (Button_InitMs zeroButton 3 0 1) [True]) [False, True])
        True
   \<and> buttonState (run_ticks (Button_InitMs zeroButton 0 3 1) [True, False]) = DEBOUNCE_RELEASE
   \<and> unat (debounceCounter (run_ticks (Button_InitMs zeroButton 0 3 1) [True, False]))
         + length [True, False]
       < unat (releaseDebouncePeriod (run_ticks (Button_InitMs zeroButton 0 3 1) [True, False]))
   \<and> unat (debounceCounter (run_ticks (Button_InitMs zeroButton 0 3 1) [True, False]))
         + length [True, False] + 1
       = unat (releaseDebouncePeriod (run_ticks (Button_InitMs zeroButton 0 3 1) [True, False]))
   \<and> raisesUp (run_ticks (run_ticks (Button_InitMs zeroButton 0 3 1) [True, False])
        [True, False]) False"
proof -
  let ?a = "run_ticks (Button_InitMs zeroButton 3 0 1) [True]"
  let ?r = "run_ticks (Button_InitMs zeroButton 0 3 1) [True, False]"
  have a: "buttonState ?a = DEBOUNCE_PRESS"
    "unat (debounceCounter ?a) + length [False, True] < unat (pressDebouncePeriod ?a)"
    "unat (debounceCounter ?a) + length [False, True] + 1 = unat (pressDebouncePeriod ?a)"
    by (simp_all add: tick_defs init_defs Let_def)
  have r: "buttonState ?r = DEBOUNCE_RELEASE"
    "unat (debounceCounter ?r) + length [True, False] < unat (releaseDebouncePeriod ?r)"
    "unat (debounceCounter ?r) + length [True, False] + 1 = unat (releaseDebouncePeriod ?r)"
    by (simp_all add: tick_defs init_defs Let_def)
  from debounce_decided_by_threshold_sample [of ?a "[False, True]" "[True, False]" True]
    debounce_decided_by_threshold_sample [of ?r "[True, False]" "[False, True]" False]
    a r
  show ?thesis by blast
qed

text \<open>
  Claim C10 says that at the tick on which the counter reaches the period the release
  is accepted if and only if the sample is deasserted, as the press is if and only if
  the sample is asserted. The source assigns \<open>BUTTON_UP\<close> at the end of a release
  debounce in both branches. Here the instance has a release debounce period of 2 and
  is held, released for one tick and pressed again, which leaves it in
  \<open>DEBOUNCE_RELEASE\<close> with the counter at 1. The next tick takes the counter to the
  period: it raises \<open>buttonUpEvent\<close> only when its sample is deasserted, but it ends
  in \<open>BUTTON_UP\<close> for either sample, so with the sample asserted the instance has
  left the held state all the same, and one more asserted tick raises
  \<open>buttonDownEvent\<close> for a press that never ended.
\<close>

theorem C10_release_threshold_ends_in_BUTTON_UP_for_either_sample:
  "buttonState (run_ticks (Button_InitMs zeroButton 0 2 1) [True, False, True])
     = DEBOUNCE_RELEASE
   \<and> debounceCounter (run_ticks (Button_InitMs zeroButton 0 2 1) [True, False, True]) + 1
     = releaseDebouncePeriod (run_ticks (Button_InitMs zeroButton 0 2 1) [True, False, True])
   \<and> raisesUp (run_ticks (Button_InitMs zeroButton 0 2 1) [True, False, True]) False
   \<and> \<not> raisesUp (run_ticks (Button_InitMs zeroButton 0 2 1) [True, False, True]) True
   \<and> buttonState
        (Button_Tick (run_ticks (Button_InitMs zeroButton 0 2 1) [True, False, True]) False)
     = BUTTON_UP
   \<and> buttonState
        (Button_Tick (run_ticks (Button_InitMs zeroButton 0 2 1) [True, False, True]) True)
     = BUTTON_UP
   \<and> raisesDown
        (Button_Tick (run_ticks (Button_InitMs zeroButton 0 2 1) [True, False, True]) True)
        True"
  by (simp add: tick_defs init_defs raises_defs accessor_defs Let_def)

section \<open>A press shorter than the press debounce period\<close>

text \<open>
  Claim C7. An instance in \<open>BUTTON_UP\<close> with a press debounce period above zero is fed
  \<open>k\<close> asserted samples, \<open>k\<close> below the period, and then \<open>m\<close> deasserted ones. Whatever
  \<open>m\<close> is, the flags are those of the start (so no \<open>buttonDownEvent\<close> was raised, ticks
  never clearing a flag) and the state is not \<open>BUTTON_DOWN\<close>; and once more ticks than
  the period have passed, the state is \<open>BUTTON_UP\<close> again.
\<close>

theorem C7_short_press_is_suppressed:
  assumes up: "buttonState s = BUTTON_UP"
    and pd: "pressDebouncePeriod s \<noteq> 0"
    and k: "k < unat (pressDebouncePeriod s)"
  shows "flags (run_ticks s (replicate k True @ replicate m False)) = flags s
       \<and> buttonState (run_ticks s (replicate k True @ replicate m False)) \<noteq> BUTTON_DOWN
       \<and> (unat (pressDebouncePeriod s) < k + m \<longrightarrow>
            buttonState (run_ticks s (replicate k True @ replicate m False)) = BUTTON_UP)"
proof (cases k)
  case 0
  then show ?thesis using up by (simp add: run_UP_idle)
next
  case (Suc j)
  let ?t = "s\<lparr>buttonState := DEBOUNCE_PRESS, debounceCounter := 0\<rparr>"
  let ?xs = "replicate j True @ replicate m False"
  have first: "run_ticks s (replicate k True @ replicate m False) = run_ticks ?t ?xs"
    by (simp add: Suc tick_UP_debounce [OF up pd])
  have st: "buttonState ?t = DEBOUNCE_PRESS" by simp
  show ?thesis
  proof (cases "j + m < unat (pressDebouncePeriod s)")
    case True
    then have "run_ticks ?t ?xs = ?t\<lparr>debounceCounter := debounceCounter ?t + of_nat (length ?xs)\<rparr>"
      by (intro run_PRESS_wait) simp_all
    with True Suc show ?thesis unfolding first by simp
  next
    case False
    define n where "n = unat (pressDebouncePeriod s) - 1 - j"
    define q where "q = m - Suc n"
    from k Suc False have m: "m = n + Suc q" and nn: "j + n + 1 = unat (pressDebouncePeriod s)"
      by (simp_all add: n_def q_def)
    let ?ys = "replicate j True @ replicate n False"
    have split: "?xs = ?ys @ False # replicate q False"
      by (simp add: m replicate_add replicate_append_same)
    have lt: "unat (debounceCounter ?t) + length ?ys < unat (pressDebouncePeriod ?t)"
      using nn by simp
    have w: "run_ticks ?t ?ys = ?t\<lparr>debounceCounter := debounceCounter ?t + of_nat (length ?ys)\<rparr>"
      by (rule run_PRESS_wait [OF st lt])
    let ?u = "?t\<lparr>debounceCounter := debounceCounter ?t + of_nat (length ?ys)\<rparr>"
    have th: "debounceCounter ?u + 1 = pressDebouncePeriod ?u"
      using threshold_next [of "0 :: 16 word" "j + n" "pressDebouncePeriod s"] nn by simp
    have st': "buttonState ?u = DEBOUNCE_PRESS" by simp
    have rej: "Button_Tick ?u False
      = ?u\<lparr>debounceCounter := pressDebouncePeriod ?u, buttonState := BUTTON_UP\<rparr>"
      by (rule tick_PRESS_reject [OF st' th])
    have "run_ticks ?t ?xs = run_ticks (run_ticks ?t ?ys) (False # replicate q False)"
      unfolding split by (rule run_ticks_append)
    also have "\<dots> = run_ticks (Button_Tick ?u False) (replicate q False)"
      unfolding w by simp
    also have "\<dots> = s\<lparr>buttonState := BUTTON_UP, debounceCounter := pressDebouncePeriod s\<rparr>"
      unfolding rej by (simp add: run_UP_idle)
    finally show ?thesis unfolding first by simp
  qed
qed

theorem C7_short_press_witness:
  "buttonState (Button_InitMs zeroButton 3 0 1) = BUTTON_UP
   \<and> pressDebouncePeriod (Button_InitMs zeroButton 3 0 1) \<noteq> 0
   \<and> 2 < unat (pressDebouncePeriod (Button_InitMs zeroButton 3 0 1))
   \<and> unat (pressDebouncePeriod (Button_InitMs zeroButton 3 0 1)) < 2 + 2
   \<and> flags (run_ticks (Button_InitMs zeroButton 3 0 1) (replicate 2 True @ replicate 2 False))
       = flags (Button_InitMs zeroButton 3 0 1)
   \<and> buttonState
        (run_ticks (Button_InitMs zeroButton 3 0 1) (replicate 2 True @ replicate 2 False))
       = BUTTON_UP"
proof -
  let ?s = "Button_InitMs zeroButton 3 0 1"
  have p: "pressDebouncePeriod ?s = 3"
    by (simp add: init_defs Let_def)
  have h: "buttonState ?s = BUTTON_UP" "pressDebouncePeriod ?s \<noteq> 0"
    "2 < unat (pressDebouncePeriod ?s)"
    by (simp_all add: p) (simp add: init_defs Let_def)
  have m: "unat (pressDebouncePeriod ?s) < 2 + 2"
    by (simp add: p)
  from C7_short_press_is_suppressed [OF h, of 2] h m show ?thesis by blast
qed

end
